theory Spec2Isabelle
  imports Complex_Main "HOL-Library.Word" "HOL-Library.AList"
begin

section \<open>NovaLink stream receivers: the session life cycle and the message pipeline\<close>

text \<open>
  The plugin has two receiver classes, \<open>UAudioReceiver\<close> (AudioReceiver.cpp) and
  \<open>UEmotionReceiver\<close> (EmotionReceiver.cpp). Their connection code is the same
  line for line; they differ in the default address, in the texts they log, in the
  delegate their message handler is bound to and in the message handler itself. One
  model covers both: the class of the object is a field of the state.
\<close>

subsection \<open>Machine types\<close>

type_synonym uint8 = "8 word"
type_synonym int32 = "32 word"

text \<open>\<open>SIZE_T\<close> on the 64-bit targets of the engine.\<close>

type_synonym SIZE_T = "64 word"

subsection \<open>The transport collaborator\<close>

datatype receiver_class = AudioReceiver | EmotionReceiver

text \<open>The delegates of \<open>IWebSocket\<close> the receivers subscribe to.\<close>

datatype delegate = OnConnected | OnConnectionError | OnClosed | OnRawMessage | OnMessage

text \<open>The member functions of a receiver that \<open>AddUObject\<close> binds to a delegate.\<close>

datatype member_function =
    Fn_HandleConnected
  | Fn_HandleConnectionError
  | Fn_HandleClosed
  | Fn_HandleBinaryMessage
  | Fn_HandleMessage

text \<open>
  Modelled from the spec: \<open>IWebSocket\<close> is engine code, outside the repository
  (section 6 of the spec lists its interface: open, connect, close, isConnected and the
  event subscriptions). A transport has the address it was opened to, for each delegate
  the list of member functions of the receiver object bound to it (\<open>AddUObject\<close>
  appends one, \<open>RemoveAll(this)\<close> empties the list), and the answer of its own
  \<open>IsConnected()\<close>.
\<close>

record IWebSocket =
  Url :: string
  bound :: "delegate \<Rightarrow> member_function list"
  transport_connected :: bool

text \<open>
  Everything a receiver does that is visible outside it, in the order it happens: log
  lines, notifications to the listeners of its three multicast delegates, and calls
  on transports (a transport is named by its address in the store).
\<close>

datatype 'f effect =
    UE_LOG_Warning string
  | UE_LOG_Error string
  | ConnectionStateChanged bool
  | AudioChunkReceived "uint8 list"
  | EmotionUpdate "(string \<times> 'f) list"
  | WS_CreateWebSocket nat string
  | WS_AddUObject nat delegate member_function
  | WS_RemoveAll nat delegate
  | WS_Connect nat
  | WS_Close nat int string

text \<open>
  The state: the members of the receiver object (\<open>WebSocketUrl\<close>,
  \<open>bIsConnected\<close>, and \<open>WebSocket\<close>, a shared pointer that is either empty or
  the address of a transport), and around it the store of transports (the engine may
  hold further references to a transport, so a transport outlives the receiver's
  handle), the number of transports allocated so far, whether the WebSockets module is
  loaded, and the effects so far.
\<close>

record 'f world =
  receiver :: receiver_class
  WebSocketUrl :: string
  bIsConnected :: bool
  WebSocket :: "nat option"
  sockets :: "nat \<Rightarrow> IWebSocket"
  allocated :: nat
  WebSocketsModule :: bool
  trace :: "'f effect list"

definition emit :: "'f effect \<Rightarrow> 'f world \<Rightarrow> 'f world" where
  "emit e w = w\<lparr>trace := trace w @ [e]\<rparr>"

definition closed_socket :: "string \<Rightarrow> IWebSocket" where
  "closed_socket u = \<lparr>Url = u, bound = (\<lambda>d. []), transport_connected = False\<rparr>"

text \<open>
  Modelled from the spec: \<open>FWebSocketsModule::CreateWebSocket\<close> (engine code) opens
  a new transport to the address: a transport of its own, with no subscriber and not
  yet connected. The receiver's handle is set by the caller.
\<close>

definition CreateWebSocket :: "string \<Rightarrow> 'f world \<Rightarrow> nat \<times> 'f world" where
  "CreateWebSocket u w =
     (allocated w,
      emit (WS_CreateWebSocket (allocated w) u)
        (w\<lparr>sockets := (sockets w)(allocated w := closed_socket u),
           allocated := Suc (allocated w)\<rparr>))"

text \<open>
  Modelled from the spec: the delegate operations of the engine. \<open>AddUObject\<close>
  appends a binding of the receiver object, \<open>RemoveAll(this)\<close> removes every binding
  of the receiver object from the delegate.
\<close>

definition AddUObject :: "nat \<Rightarrow> delegate \<Rightarrow> member_function \<Rightarrow> 'f world \<Rightarrow> 'f world" where
  "AddUObject i d m w =
     emit (WS_AddUObject i d m)
       (w\<lparr>sockets := (sockets w)
            (i := (sockets w i)\<lparr>bound := (bound (sockets w i))(d := bound (sockets w i) d @ [m])\<rparr>)\<rparr>)"

definition RemoveAll :: "nat \<Rightarrow> delegate \<Rightarrow> 'f world \<Rightarrow> 'f world" where
  "RemoveAll i d w =
     emit (WS_RemoveAll i d)
       (w\<lparr>sockets := (sockets w)
            (i := (sockets w i)\<lparr>bound := (bound (sockets w i))(d := [])\<rparr>)\<rparr>)"

text \<open>
  Modelled from the spec: \<open>connect()\<close> and \<open>close(code, reason)\<close> are requests
  (section 6: asynchronous); what the transport does with them arrives later, through
  its delegates.
\<close>

definition Connect :: "nat \<Rightarrow> 'f world \<Rightarrow> 'f world" where
  "Connect i w = emit (WS_Connect i) w"

definition Close :: "nat \<Rightarrow> int \<Rightarrow> string \<Rightarrow> 'f world \<Rightarrow> 'f world" where
  "Close i code reason w = emit (WS_Close i code reason) w"

subsection \<open>What the two classes differ in\<close>

definition DefaultAudioUrl :: string where
  "DefaultAudioUrl = ''ws://localhost:5000/ws/audio''"

definition DefaultEmotionUrl :: string where
  "DefaultEmotionUrl = ''ws://localhost:5000/ws/emotion''"

fun class_name :: "receiver_class \<Rightarrow> string" where
  "class_name AudioReceiver = ''AudioReceiver''"
| "class_name EmotionReceiver = ''EmotionReceiver''"

text \<open>Line 41 of AudioReceiver.cpp, line 42 of EmotionReceiver.cpp.\<close>

fun message_delegate :: "receiver_class \<Rightarrow> delegate" where
  "message_delegate AudioReceiver = OnRawMessage"
| "message_delegate EmotionReceiver = OnMessage"

fun message_method :: "receiver_class \<Rightarrow> member_function" where
  "message_method AudioReceiver = Fn_HandleBinaryMessage"
| "message_method EmotionReceiver = Fn_HandleMessage"

subsection \<open>The session\<close>

text \<open>The constructors: the default address, not connected, an empty handle.\<close>

definition new_receiver :: "receiver_class \<Rightarrow> string \<Rightarrow> 'f world" where
  "new_receiver c u =
     \<lparr>receiver = c, WebSocketUrl = u, bIsConnected = False, WebSocket = None,
      sockets = (\<lambda>i. closed_socket []), allocated = 0, WebSocketsModule = False,
      trace = []\<rparr>"

definition UAudioReceiver :: "'f world" where
  "UAudioReceiver = new_receiver AudioReceiver DefaultAudioUrl"

definition UEmotionReceiver :: "'f world" where
  "UEmotionReceiver = new_receiver EmotionReceiver DefaultEmotionUrl"

definition IsConnected :: "'f world \<Rightarrow> bool" where
  "IsConnected w = bIsConnected w"

definition ResetWebSocket :: "'f world \<Rightarrow> 'f world" where
  "ResetWebSocket w =
     (if WebSocket w \<noteq> None then w\<lparr>WebSocket := None\<rparr> else w)\<lparr>bIsConnected := False\<rparr>"

definition StopConnection :: "'f world \<Rightarrow> 'f world" where
  "StopConnection w =
     ResetWebSocket
       (case WebSocket w of
          None \<Rightarrow> w
        | Some i \<Rightarrow>
            (let w1 = RemoveAll i OnConnected w;
                 w2 = RemoveAll i OnConnectionError w1;
                 w3 = RemoveAll i OnClosed w2;
                 w4 = RemoveAll i (message_delegate (receiver w)) w3
             in if transport_connected (sockets w4 i)
                then Close i 1000 (class_name (receiver w) @ '' Stop'') w4
                else w4))"

definition StartConnection :: "string \<Rightarrow> 'f world \<Rightarrow> 'f world" where
  "StartConnection OptionalOverrideUrl w =
     (let TargetUrl = (if OptionalOverrideUrl = [] then WebSocketUrl w else OptionalOverrideUrl)
      in if TargetUrl = []
         then emit (UE_LOG_Warning
                (''NovaLink '' @ class_name (receiver w) @ '' requires a websocket URL.'')) w
         else
           (let w0 = StopConnection w;
                w1 = (if \<not> WebSocketsModule w0 then w0\<lparr>WebSocketsModule := True\<rparr> else w0);
                (i, w2) = CreateWebSocket TargetUrl w1;
                w3 = w2\<lparr>WebSocket := Some i\<rparr>;
                w4 = AddUObject i OnConnected Fn_HandleConnected w3;
                w5 = AddUObject i OnConnectionError Fn_HandleConnectionError w4;
                w6 = AddUObject i OnClosed Fn_HandleClosed w5;
                w7 = AddUObject i (message_delegate (receiver w)) (message_method (receiver w)) w6
            in Connect i w7))"

definition HandleConnected :: "'f world \<Rightarrow> 'f world" where
  "HandleConnected w = emit (ConnectionStateChanged True) (w\<lparr>bIsConnected := True\<rparr>)"

definition HandleConnectionError :: "string \<Rightarrow> 'f world \<Rightarrow> 'f world" where
  "HandleConnectionError Error w =
     (let w1 = emit (UE_LOG_Error
                 (''NovaLink '' @ class_name (receiver w) @ '' connection error: '' @ Error)) w;
          w2 = w1\<lparr>bIsConnected := False\<rparr>;
          w3 = emit (ConnectionStateChanged False) w2
      in ResetWebSocket w3)"

definition HandleClosed :: "int32 \<Rightarrow> string \<Rightarrow> bool \<Rightarrow> 'f world \<Rightarrow> 'f world" where
  "HandleClosed StatusCode Reason bWasClean w =
     (let w1 = w\<lparr>bIsConnected := False\<rparr>;
          w2 = emit (ConnectionStateChanged False) w1
      in ResetWebSocket w2)"

subsection \<open>The binary frame forwarder (AudioReceiver.cpp, lines 90 to 102)\<close>

datatype fault = Append_NegativeCount

text \<open>
  Modelled from the spec: \<open>TArray::Append(Ptr, Count)\<close> is engine code. Section 4.2
  of the spec: the bytes are copied into a newly owned buffer, so for a count that is
  not negative the buffer grows by the first \<open>Count\<close> elements at \<open>Ptr\<close>. The
  count is a signed 32-bit number; a negative count is outside the container's
  contract, and is a fault here.
\<close>

definition TArray_Append :: "uint8 list \<Rightarrow> uint8 list \<Rightarrow> int \<Rightarrow> fault + uint8 list" where
  "TArray_Append Buffer Ptr Count =
     (if Count < 0 then Inl Append_NegativeCount else Inr (Buffer @ take (nat Count) Ptr))"

text \<open>\<open>static_cast<int32>(Size)\<close>: the low 32 bits, read as two's complement.\<close>

definition static_cast_int32 :: "SIZE_T \<Rightarrow> int" where
  "static_cast_int32 Size = sint (ucast Size :: int32)"

text \<open>
  \<open>Data\<close> is \<open>None\<close> for the null pointer, and otherwise the bytes readable at the
  pointer.
\<close>

definition HandleBinaryMessage ::
  "uint8 list option \<Rightarrow> SIZE_T \<Rightarrow> SIZE_T \<Rightarrow> 'f world \<Rightarrow> fault + 'f world" where
  "HandleBinaryMessage Data Size BytesRemaining w =
     (case Data of
        None \<Rightarrow> Inr w
      | Some ByteData \<Rightarrow>
          if Size = 0 then Inr w
          else (case TArray_Append [] ByteData (static_cast_int32 Size) of
                  Inl f \<Rightarrow> Inl f
                | Inr Buffer \<Rightarrow> Inr (emit (AudioChunkReceived Buffer) w)))"

subsection \<open>The emotion message decoder (EmotionReceiver.cpp, lines 91 to 146)\<close>

text \<open>
  Modelled from the spec: the JSON values of the engine (\<open>FJsonValue\<close> and its
  \<open>EJson\<close> type tag) are engine code. Section 9 of the spec: a typed JSON value is
  one of null, bool, number, string, array, object. The type \<open>'d\<close> stands for the
  engine's \<open>double\<close>.
\<close>

datatype EJson =
  EJson_None | EJson_Null | EJson_String | EJson_Number | EJson_Boolean | EJson_Array | EJson_Object

datatype 'd FJsonValue =
    FJsonValueNull
  | FJsonValueString string
  | FJsonValueNumber 'd
  | FJsonValueBoolean bool
  | FJsonValueArray "'d FJsonValue list"
  | FJsonValueObject "(string \<times> 'd FJsonValue) list"

fun Type :: "'d FJsonValue \<Rightarrow> EJson" where
  "Type FJsonValueNull = EJson_Null"
| "Type (FJsonValueString s) = EJson_String"
| "Type (FJsonValueNumber d) = EJson_Number"
| "Type (FJsonValueBoolean b) = EJson_Boolean"
| "Type (FJsonValueArray xs) = EJson_Array"
| "Type (FJsonValueObject kvs) = EJson_Object"

fun AsString :: "'d FJsonValue \<Rightarrow> string" where
  "AsString (FJsonValueString s) = s"
| "AsString v = []"

text \<open>
  The helpers of the engine that the decoder calls and the repository does not hold are
  parameters of the model: the JSON reader (\<open>FJsonSerializer::Deserialize\<close>: its
  boolean result and the object it leaves in \<open>JsonObject\<close>, \<open>None\<close> for an
  invalid pointer; an object is its \<open>Values\<close>, key and value pointer in iteration
  order), \<open>FJsonValue::TryGetNumber\<close>, \<open>FString::IsNumeric\<close>, \<open>FCString::Atof\<close>
  and the conversion \<open>static_cast<float>\<close> from \<open>double\<close> (\<open>'d\<close>) to
  \<open>float\<close> (\<open>'f\<close>).
\<close>

record ('d, 'f) json_engine =
  Deserialize :: "string \<Rightarrow> bool \<times> (string \<times> 'd FJsonValue option) list option"
  TryGetNumber :: "'d FJsonValue \<Rightarrow> 'd option"
  IsNumeric :: "string \<Rightarrow> bool"
  Atof :: "string \<Rightarrow> 'f"
  static_cast_float :: "'d \<Rightarrow> 'f"

text \<open>
  \<open>TMap::Add\<close>: a new key is added, the value of a key already there is replaced.
  \<open>OutValues\<close> is a list of key and value with distinct keys.
\<close>

definition TMap_Add :: "string \<Rightarrow> 'f \<Rightarrow> (string \<times> 'f) list \<Rightarrow> (string \<times> 'f) list" where
  "TMap_Add k v m = AList.update k v m"

text \<open>The body of the loop of \<open>TryParseEmotionMessage\<close>, for one pair.\<close>

fun parse_pair ::
  "('d, 'f) json_engine \<Rightarrow> string \<times> 'd FJsonValue option \<Rightarrow> (string \<times> 'f) list \<Rightarrow> (string \<times> 'f) list"
  where
  "parse_pair E (Key, None) OutValues = OutValues"
| "parse_pair E (Key, Some Value) OutValues =
     (case TryGetNumber E Value of
        Some NumericValue \<Rightarrow> TMap_Add Key (static_cast_float E NumericValue) OutValues
      | None \<Rightarrow>
          if Type Value = EJson_String
          then (let RawString = AsString Value
                in if IsNumeric E RawString
                   then TMap_Add Key (Atof E RawString) OutValues
                   else OutValues)
          else OutValues)"

text \<open>The result and the final content of \<open>OutValues\<close>, which is passed by reference.\<close>

definition TryParseEmotionMessage ::
  "('d, 'f) json_engine \<Rightarrow> string \<Rightarrow> (string \<times> 'f) list \<Rightarrow> bool \<times> (string \<times> 'f) list" where
  "TryParseEmotionMessage E Message OutValues =
     (case Deserialize E Message of
        (ok, JsonObject) \<Rightarrow>
          if \<not> ok \<or> JsonObject = None then (False, OutValues)
          else (let Out = fold (parse_pair E) (the JsonObject) []
                in (0 < length Out, Out)))"

definition HandleMessage :: "('d, 'f) json_engine \<Rightarrow> string \<Rightarrow> 'f world \<Rightarrow> 'f world" where
  "HandleMessage E Message w =
     (case TryParseEmotionMessage E Message [] of
        (ok, ParsedValues) \<Rightarrow>
          if ok then emit (EmotionUpdate ParsedValues) w
          else emit (UE_LOG_Warning
                 (''NovaLink EmotionReceiver received invalid JSON: '' @ Message)) w)"

subsection \<open>Events of a transport and the end of a receiver\<close>

datatype transport_event =
    Connected
  | ConnectionError string
  | Closed int32 string bool
  | RawMessage "uint8 list option" SIZE_T SIZE_T
  | TextMessage string

fun delegate_of :: "transport_event \<Rightarrow> delegate" where
  "delegate_of Connected = OnConnected"
| "delegate_of (ConnectionError e) = OnConnectionError"
| "delegate_of (Closed c r b) = OnClosed"
| "delegate_of (RawMessage d s r) = OnRawMessage"
| "delegate_of (TextMessage m) = OnMessage"

text \<open>
  A bound member function is called with the arguments of the event. The two member
  functions that take one string can each stand on either delegate that carries one
  string; no other pairing has matching argument types.
\<close>

fun invoke ::
  "('d, 'f) json_engine \<Rightarrow> member_function \<Rightarrow> transport_event \<Rightarrow> 'f world \<Rightarrow> fault + 'f world" where
  "invoke E Fn_HandleConnected Connected w = Inr (HandleConnected w)"
| "invoke E Fn_HandleConnectionError (ConnectionError e) w = Inr (HandleConnectionError e w)"
| "invoke E Fn_HandleConnectionError (TextMessage m) w = Inr (HandleConnectionError m w)"
| "invoke E Fn_HandleClosed (Closed c r b) w = Inr (HandleClosed c r b w)"
| "invoke E Fn_HandleBinaryMessage (RawMessage d s r) w = HandleBinaryMessage d s r w"
| "invoke E Fn_HandleMessage (TextMessage m) w = Inr (HandleMessage E m w)"
| "invoke E Fn_HandleMessage (ConnectionError e) w = Inr (HandleMessage E e w)"
| "invoke E m ev w = Inr w"

fun Broadcast ::
  "('d, 'f) json_engine \<Rightarrow> member_function list \<Rightarrow> transport_event \<Rightarrow> 'f world \<Rightarrow> fault + 'f world" where
  "Broadcast E [] ev w = Inr w"
| "Broadcast E (m # ms) ev w =
     (case invoke E m ev w of Inl f \<Rightarrow> Inl f | Inr w' \<Rightarrow> Broadcast E ms ev w')"

text \<open>
  Modelled from the spec: a transport raises an event (section 6: connect triggers
  eventual onConnected or onError, close triggers onClosed). Its own
  \<open>IsConnected()\<close> follows the event, and the member functions bound to the
  delegate of the event are called, in the order they were bound.
\<close>

fun connected_after :: "transport_event \<Rightarrow> bool \<Rightarrow> bool" where
  "connected_after Connected b = True"
| "connected_after (ConnectionError e) b = False"
| "connected_after (Closed c r cl) b = False"
| "connected_after ev b = b"

definition transport_raises ::
  "('d, 'f) json_engine \<Rightarrow> nat \<Rightarrow> transport_event \<Rightarrow> 'f world \<Rightarrow> fault + 'f world" where
  "transport_raises E i ev w =
     Broadcast E (bound (sockets w i) (delegate_of ev)) ev
       (w\<lparr>sockets := (sockets w)
            (i := (sockets w i)\<lparr>transport_connected :=
                    connected_after ev (transport_connected (sockets w i))\<rparr>)\<rparr>)"

text \<open>
  Neither class declares a destructor, \<open>BeginDestroy\<close> or any other override of the
  end of an object (AudioReceiver.h, EmotionReceiver.h): when a receiver is destroyed,
  its members are destroyed one by one, and the one effect on a transport is that the
  shared pointer \<open>WebSocket\<close> gives up its reference.
\<close>

definition implicit_destructor :: "'f world \<Rightarrow> 'f world" where
  "implicit_destructor w = w\<lparr>WebSocket := None\<rparr>"

text \<open>
  A run of a session: calls of the host (the address is a public property, the host may
  set it) and events of transports, in order; it stops at the first fault.
\<close>

datatype action =
    Host_SetUrl string
  | Host_StartConnection string
  | Host_StopConnection
  | Host_Destroy
  | Transport nat transport_event

fun perform :: "('d, 'f) json_engine \<Rightarrow> action \<Rightarrow> 'f world \<Rightarrow> fault + 'f world" where
  "perform E (Host_SetUrl u) w = Inr (w\<lparr>WebSocketUrl := u\<rparr>)"
| "perform E (Host_StartConnection u) w = Inr (StartConnection u w)"
| "perform E Host_StopConnection w = Inr (StopConnection w)"
| "perform E Host_Destroy w = Inr (implicit_destructor w)"
| "perform E (Transport i ev) w = transport_raises E i ev w"

fun run :: "('d, 'f) json_engine \<Rightarrow> action list \<Rightarrow> 'f world \<Rightarrow> fault + 'f world" where
  "run E [] w = Inr w"
| "run E (s # ss) w = (case perform E s w of Inl f \<Rightarrow> Inl f | Inr w' \<Rightarrow> run E ss w')"

text \<open>The handle of the receiver, if it has one, is the address of an allocated transport.\<close>

definition handle_allocated :: "'f world \<Rightarrow> bool" where
  "handle_allocated w = (case WebSocket w of None \<Rightarrow> True | Some i \<Rightarrow> i < allocated w)"


text \<open>The connection-state notifications among the effects, in order.\<close>

fun connection_notifications :: "'f effect list \<Rightarrow> bool list" where
  "connection_notifications [] = []"
| "connection_notifications (ConnectionStateChanged b # es) = b # connection_notifications es"
| "connection_notifications (e # es) = connection_notifications es"

text \<open>No two neighbours of the list are equal.\<close>

fun alternates :: "bool list \<Rightarrow> bool" where
  "alternates (a # b # bs) = (a \<noteq> b \<and> alternates (b # bs))"
| "alternates bs = True"

text \<open>The calls on transports among the effects, in order.\<close>

fun transport_calls :: "'f effect list \<Rightarrow> 'f effect list" where
  "transport_calls [] = []"
| "transport_calls (WS_CreateWebSocket i u # es) = WS_CreateWebSocket i u # transport_calls es"
| "transport_calls (WS_AddUObject i d m # es) = WS_AddUObject i d m # transport_calls es"
| "transport_calls (WS_RemoveAll i d # es) = WS_RemoveAll i d # transport_calls es"
| "transport_calls (WS_Connect i # es) = WS_Connect i # transport_calls es"
| "transport_calls (WS_Close i c r # es) = WS_Close i c r # transport_calls es"
| "transport_calls (e # es) = transport_calls es"

text \<open>The callbacks of the session life cycle, as the session receives them.\<close>

fun callback :: "transport_event \<Rightarrow> 'f world \<Rightarrow> 'f world" where
  "callback Connected w = HandleConnected w"
| "callback (ConnectionError e) w = HandleConnectionError e w"
| "callback (Closed c r b) w = HandleClosed c r b w"
| "callback ev w = w"

fun is_connection_event :: "transport_event \<Rightarrow> bool" where
  "is_connection_event (RawMessage d s r) = False"
| "is_connection_event (TextMessage m) = False"
| "is_connection_event ev = True"

text \<open>
  What the body of the loop stores under the key of a pair, if anything, by the
  branches of \<open>parse_pair\<close>.
\<close>

fun stored_value :: "('d, 'f) json_engine \<Rightarrow> 'd FJsonValue option \<Rightarrow> 'f option" where
  "stored_value E None = None"
| "stored_value E (Some Value) =
     (case TryGetNumber E Value of
        Some NumericValue \<Rightarrow> Some (static_cast_float E NumericValue)
      | None \<Rightarrow>
          if Type Value = EJson_String \<and> IsNumeric E (AsString Value)
          then Some (Atof E (AsString Value)) else None)"

subsection \<open>An engine for worked examples\<close>

text \<open>
  Modelled from the spec: an instance of the engine's JSON helpers, for evaluating the
  decoder on the sample messages of section 8 of the spec. Numbers are real numbers and
  the conversion to \<open>float\<close> does not round. The reader knows the two sample objects
  and reports every other text as a parse failure; a value is a number if it is a JSON
  number (section 4.3); a string is numeric if it is an optional sign and digits with
  at most one point, and is read as a decimal.
\<close>

definition sample_message :: string where
  \<open>sample_message = ''{"joy": 0.8, "anger": "0.1", "label": "happy"}''\<close>

definition sample_label_only :: string where
  \<open>sample_label_only = ''{"label": "happy"}''\<close>

definition example_Deserialize ::
  "string \<Rightarrow> bool \<times> (string \<times> real FJsonValue option) list option" where
  "example_Deserialize s =
     (if s = sample_message
      then (True, Some [(''joy'', Some (FJsonValueNumber (8 / 10))),
                        (''anger'', Some (FJsonValueString ''0.1'')),
                        (''label'', Some (FJsonValueString ''happy''))])
      else if s = sample_label_only
      then (True, Some [(''label'', Some (FJsonValueString ''happy''))])
      else (False, None))"

fun example_TryGetNumber :: "real FJsonValue \<Rightarrow> real option" where
  "example_TryGetNumber (FJsonValueNumber d) = Some d"
| "example_TryGetNumber v = None"

definition unsigned_part :: "string \<Rightarrow> string" where
  "unsigned_part s =
     (case s of [] \<Rightarrow> [] | c # cs \<Rightarrow> if c = CHR ''-'' \<or> c = CHR ''+'' then cs else s)"

definition example_IsNumeric :: "string \<Rightarrow> bool" where
  "example_IsNumeric s =
     (let u = unsigned_part s
      in filter (\<lambda>c. c \<notin> set ''0123456789.'') u = []
         \<and> filter (\<lambda>c. c \<in> set ''0123456789'') u \<noteq> []
         \<and> length (filter (\<lambda>c. c = CHR ''.'') u) \<le> 1)"

definition digit_value :: "char \<Rightarrow> nat" where
  "digit_value c = length (takeWhile (\<lambda>d. d \<noteq> c) ''0123456789'')"

definition digits_value :: "string \<Rightarrow> nat" where
  "digits_value ds = foldl (\<lambda>n c. 10 * n + digit_value c) 0 ds"

definition example_Atof :: "string \<Rightarrow> real" where
  "example_Atof s =
     (let u = unsigned_part s;
          whole = takeWhile (\<lambda>c. c \<noteq> CHR ''.'') u;
          frac = drop 1 (dropWhile (\<lambda>c. c \<noteq> CHR ''.'') u);
          m = real (digits_value whole) + real (digits_value frac) / 10 ^ length frac
      in if take 1 s = ''-'' then - m else m)"

definition example_engine :: "(real, real) json_engine" where
  "example_engine =
     \<lparr>Deserialize = example_Deserialize, TryGetNumber = example_TryGetNumber,
      IsNumeric = example_IsNumeric, Atof = example_Atof, static_cast_float = (\<lambda>d. d)\<rparr>"

text \<open>Sessions for worked examples: an audio receiver whose transport has connected.\<close>

definition connected_audio :: "real world" where
  "connected_audio =
     projr (run example_engine [Host_StartConnection [], Transport 0 Connected] UAudioReceiver)"

definition refused_twice :: "real world" where
  "refused_twice =
     projr (run example_engine
       [Host_StartConnection [], Transport 0 (ConnectionError ''refused''),
        Host_StartConnection [], Transport 1 (ConnectionError ''refused'')] UAudioReceiver)"




section \<open>Properties\<close>

subsection \<open>Auxiliary facts\<close>

lemmas transport_ops =
  emit_def RemoveAll_def AddUObject_def Connect_def Close_def CreateWebSocket_def

lemmas session_defs =
  StartConnection_def StopConnection_def ResetWebSocket_def HandleConnected_def
  HandleConnectionError_def HandleClosed_def transport_raises_def implicit_destructor_def
  UAudioReceiver_def UEmotionReceiver_def new_receiver_def DefaultAudioUrl_def
  DefaultEmotionUrl_def closed_socket_def Let_def

lemma connection_notifications_append:
  "connection_notifications (es @ fs) = connection_notifications es @ connection_notifications fs"
  by (induction es rule: connection_notifications.induct) simp_all

lemma transport_calls_append:
  "transport_calls (es @ fs) = transport_calls es @ transport_calls fs"
  by (induction es rule: transport_calls.induct) simp_all

lemma ResetWebSocket_fields:
  "WebSocket (ResetWebSocket w) = None"
  "bIsConnected (ResetWebSocket w) = False"
  "trace (ResetWebSocket w) = trace w"
  "sockets (ResetWebSocket w) = sockets w"
  "allocated (ResetWebSocket w) = allocated w"
  "receiver (ResetWebSocket w) = receiver w"
  "WebSocketUrl (ResetWebSocket w) = WebSocketUrl w"
  "WebSocketsModule (ResetWebSocket w) = WebSocketsModule w"
  by (simp_all add: ResetWebSocket_def)

lemma ResetWebSocket_released:
  "WebSocket w = None \<Longrightarrow> \<not> bIsConnected w \<Longrightarrow> ResetWebSocket w = w"
  by (simp add: ResetWebSocket_def)

lemma StopConnection_fields:
  "WebSocket (StopConnection w) = None"
  "bIsConnected (StopConnection w) = False"
  "allocated (StopConnection w) = allocated w"
  "receiver (StopConnection w) = receiver w"
  "WebSocketUrl (StopConnection w) = WebSocketUrl w"
  "WebSocketsModule (StopConnection w) = WebSocketsModule w"
  by (simp_all add: StopConnection_def ResetWebSocket_fields transport_ops Let_def split: option.split)

lemma StopConnection_released:
  "WebSocket w = None \<Longrightarrow> \<not> bIsConnected w \<Longrightarrow> StopConnection w = w"
  by (simp add: StopConnection_def ResetWebSocket_released)

lemma StopConnection_notifications:
  "connection_notifications (trace (StopConnection w)) = connection_notifications (trace w)"
  by (simp add: StopConnection_def ResetWebSocket_fields transport_ops Let_def
      connection_notifications_append split: option.split)

lemma connected_audio_fields:
  "run example_engine [Host_StartConnection [], Transport 0 Connected] UAudioReceiver =
     Inr connected_audio"
  "bIsConnected connected_audio"
  "WebSocket connected_audio = Some 0"
  "allocated connected_audio = 1"
  "receiver connected_audio = AudioReceiver"
  "transport_connected (sockets connected_audio 0)"
  "connection_notifications (trace connected_audio) = [True]"
  by (simp_all add: connected_audio_def session_defs transport_ops)

subsection \<open>The emotion message decoder\<close>

lemma parse_pair_stored:
  "parse_pair E (Key, Value) OutValues =
     (case stored_value E Value of None \<Rightarrow> OutValues | Some x \<Rightarrow> TMap_Add Key x OutValues)"
  by (cases Value) (simp_all add: Let_def split: option.split)

lemma parse_pair_distinct:
  "distinct (map fst OutValues) \<Longrightarrow> distinct (map fst (parse_pair E p OutValues))"
  by (cases p) (simp add: parse_pair_stored TMap_Add_def distinct_update split: option.split)

lemma fold_parse_pair_distinct:
  "distinct (map fst OutValues) \<Longrightarrow> distinct (map fst (fold (parse_pair E) Values OutValues))"
  by (induction Values arbitrary: OutValues) (simp_all add: parse_pair_distinct)

lemma map_of_parse_pair:
  "map_of (parse_pair E (Key, Value) OutValues) k =
     (if k = Key then (case stored_value E Value of None \<Rightarrow> map_of OutValues k | Some x \<Rightarrow> Some x)
      else map_of OutValues k)"
  by (simp add: parse_pair_stored TMap_Add_def update_conv' split: option.split)

lemma map_of_fold_parse_pair:
  "distinct (map fst Values) \<Longrightarrow>
     map_of (fold (parse_pair E) Values OutValues) k =
       (case map_of Values k of
          None \<Rightarrow> map_of OutValues k
        | Some Value \<Rightarrow>
            (case stored_value E Value of None \<Rightarrow> map_of OutValues k | Some x \<Rightarrow> Some x))"
proof (induction Values arbitrary: OutValues)
  case Nil
  show ?case by simp
next
  case (Cons p Values)
  obtain Key Value where p: "p = (Key, Value)"
    by (cases p)
  from Cons.prems p have fresh: "map_of Values Key = None" and rest: "distinct (map fst Values)"
    by (simp_all add: map_of_eq_None_iff)
  show ?case
  proof (cases "k = Key")
    case True
    then show ?thesis
      using Cons.IH [OF rest, of "parse_pair E (Key, Value) OutValues"] fresh p
      by (simp add: map_of_parse_pair split: option.split)
  next
    case False
    then show ?thesis
      using Cons.IH [OF rest, of "parse_pair E (Key, Value) OutValues"] p
      by (simp add: map_of_parse_pair split: option.split)
  qed
qed

lemma stored_value_Some:
  "stored_value E (Some v) = Some x \<longleftrightarrow>
     (\<exists>d. TryGetNumber E v = Some d \<and> x = static_cast_float E d)
     \<or> (TryGetNumber E v = None \<and> (\<exists>s. v = FJsonValueString s \<and> IsNumeric E s \<and> x = Atof E s))"
  by (cases v) (auto split: option.split)

lemma decoded_pairs:
  assumes "distinct (map fst Values)"
  shows "(k, x) \<in> set (fold (parse_pair E) Values []) \<longleftrightarrow>
     (\<exists>v. (k, Some v) \<in> set Values \<and> stored_value E (Some v) = Some x)"
proof -
  have "distinct (map fst (fold (parse_pair E) Values []))"
    by (rule fold_parse_pair_distinct) simp
  then have "(k, x) \<in> set (fold (parse_pair E) Values []) \<longleftrightarrow>
      map_of (fold (parse_pair E) Values []) k = Some x"
    by simp
  also have "\<dots> \<longleftrightarrow> (\<exists>Value. map_of Values k = Some Value \<and> stored_value E Value = Some x)"
    by (simp add: map_of_fold_parse_pair [OF assms] split: option.split)
  also have "\<dots> \<longleftrightarrow> (\<exists>Value. (k, Value) \<in> set Values \<and> stored_value E Value = Some x)"
    using assms by simp
  also have "\<dots> \<longleftrightarrow> (\<exists>v. (k, Some v) \<in> set Values \<and> stored_value E (Some v) = Some x)"
  proof
    assume "\<exists>Value. (k, Value) \<in> set Values \<and> stored_value E Value = Some x"
    then obtain Value where "(k, Value) \<in> set Values" and "stored_value E Value = Some x"
      by blast
    then show "\<exists>v. (k, Some v) \<in> set Values \<and> stored_value E (Some v) = Some x"
      by (cases Value) (auto simp del: stored_value.simps(2))
  next
    assume "\<exists>v. (k, Some v) \<in> set Values \<and> stored_value E (Some v) = Some x"
    then show "\<exists>Value. (k, Value) \<in> set Values \<and> stored_value E Value = Some x"
      by blast
  qed
  finally show ?thesis .
qed

lemmas example_engine_defs =
  example_engine_def example_Deserialize_def example_IsNumeric_def example_Atof_def
  unsigned_part_def digits_value_def digit_value_def sample_message_def sample_label_only_def

text \<open>
  Claim C1. For every text message: when the reader fails or leaves no valid object,
  the message is discarded with one warning and no notification. When it yields an
  object (with the distinct keys of a \<open>TMap\<close>), the mapping built has distinct
  keys and holds exactly the pairs \<open>(k, x)\<close> for which the object has a pair of key
  \<open>k\<close> whose value is valid and either is numeric (\<open>TryGetNumber\<close> gives a
  number \<open>d\<close>, and \<open>x\<close> is \<open>d\<close> converted to float) or is not, and is a string
  whose content is numeric (\<open>IsNumeric\<close>), \<open>x\<close> being the string parsed to
  float; every other pair is skipped. The listeners are notified once, with that
  mapping, if it has an entry; if it has none, the message is discarded with one
  warning and no notification. "Numeric" is what \<open>TryGetNumber\<close> of the engine
  accepts. The three sample messages of section 8 of the spec are evaluated after the
  theorem.
\<close>

theorem HandleMessage_decodes:
  assumes "Deserialize E Message = (ok, JsonObject)"
  shows "(\<not> ok \<or> JsonObject = None \<longrightarrow>
        HandleMessage E Message w =
          emit (UE_LOG_Warning (''NovaLink EmotionReceiver received invalid JSON: '' @ Message)) w)
    \<and> (\<forall>Values. ok \<and> JsonObject = Some Values \<and> distinct (map fst Values) \<longrightarrow>
        distinct (map fst (snd (TryParseEmotionMessage E Message [])))
        \<and> (\<forall>k x. (k, x) \<in> set (snd (TryParseEmotionMessage E Message [])) \<longleftrightarrow>
              (\<exists>v. (k, Some v) \<in> set Values
                 \<and> ((\<exists>d. TryGetNumber E v = Some d \<and> x = static_cast_float E d)
                    \<or> (TryGetNumber E v = None
                       \<and> (\<exists>s. v = FJsonValueString s \<and> IsNumeric E s \<and> x = Atof E s)))))
        \<and> HandleMessage E Message w =
            (if snd (TryParseEmotionMessage E Message []) = []
             then emit (UE_LOG_Warning
                    (''NovaLink EmotionReceiver received invalid JSON: '' @ Message)) w
             else emit (EmotionUpdate (snd (TryParseEmotionMessage E Message []))) w))"
proof (intro conjI allI impI)
  assume "\<not> ok \<or> JsonObject = None"
  with assms show "HandleMessage E Message w =
      emit (UE_LOG_Warning (''NovaLink EmotionReceiver received invalid JSON: '' @ Message)) w"
    by (auto simp: HandleMessage_def TryParseEmotionMessage_def)
next
  fix Values
  assume valid: "ok \<and> JsonObject = Some Values \<and> distinct (map fst Values)"
  with assms have parsed: "TryParseEmotionMessage E Message [] =
      (fold (parse_pair E) Values [] \<noteq> [], fold (parse_pair E) Values [])"
    by (simp add: TryParseEmotionMessage_def Let_def)
  show "distinct (map fst (snd (TryParseEmotionMessage E Message [])))"
    by (simp only: parsed snd_conv) (rule fold_parse_pair_distinct, simp)
  show "HandleMessage E Message w =
      (if snd (TryParseEmotionMessage E Message []) = []
       then emit (UE_LOG_Warning
              (''NovaLink EmotionReceiver received invalid JSON: '' @ Message)) w
       else emit (EmotionUpdate (snd (TryParseEmotionMessage E Message []))) w)"
    by (simp add: HandleMessage_def parsed)
  fix k x
  show "(k, x) \<in> set (snd (TryParseEmotionMessage E Message [])) \<longleftrightarrow>
      (\<exists>v. (k, Some v) \<in> set Values
         \<and> ((\<exists>d. TryGetNumber E v = Some d \<and> x = static_cast_float E d)
            \<or> (TryGetNumber E v = None
               \<and> (\<exists>s. v = FJsonValueString s \<and> IsNumeric E s \<and> x = Atof E s))))"
    using valid by (simp only: parsed snd_conv decoded_pairs stored_value_Some)
qed

theorem HandleMessage_decodes_witness:
  "Deserialize example_engine sample_message =
     (True, Some [(''joy'', Some (FJsonValueNumber (8 / 10))),
                  (''anger'', Some (FJsonValueString ''0.1'')),
                  (''label'', Some (FJsonValueString ''happy''))])
   \<and> distinct (map fst [(''joy'', Some (FJsonValueNumber (8 / 10 :: real))),
                  (''anger'', Some (FJsonValueString ''0.1'')),
                  (''label'', Some (FJsonValueString ''happy''))])
   \<and> HandleMessage example_engine sample_message UEmotionReceiver =
       emit (EmotionUpdate [(''joy'', 8 / 10), (''anger'', 1 / 10)]) UEmotionReceiver
   \<and> Deserialize example_engine sample_label_only =
       (True, Some [(''label'', Some (FJsonValueString ''happy''))])
   \<and> HandleMessage example_engine sample_label_only UEmotionReceiver =
       emit (UE_LOG_Warning
         (''NovaLink EmotionReceiver received invalid JSON: '' @ sample_label_only)) UEmotionReceiver
   \<and> Deserialize example_engine ''not json'' = (False, None)
   \<and> HandleMessage example_engine ''not json'' UEmotionReceiver =
       emit (UE_LOG_Warning ''NovaLink EmotionReceiver received invalid JSON: not json'')
         UEmotionReceiver"
proof -
  have sample: "Deserialize example_engine sample_message =
      (True, Some [(''joy'', Some (FJsonValueNumber (8 / 10))),
                   (''anger'', Some (FJsonValueString ''0.1'')),
                   (''label'', Some (FJsonValueString ''happy''))])"
    and label_only: "Deserialize example_engine sample_label_only =
      (True, Some [(''label'', Some (FJsonValueString ''happy''))])"
    and garbage: "Deserialize example_engine ''not json'' = (False, None)"
    by (simp_all add: example_engine_defs)
  have keys: "distinct (map fst [(''joy'', Some (FJsonValueNumber (8 / 10 :: real))),
      (''anger'', Some (FJsonValueString ''0.1'')),
      (''label'', Some (FJsonValueString ''happy''))])"
    by simp
  have mapping: "snd (TryParseEmotionMessage example_engine sample_message []) =
      [(''joy'', 8 / 10), (''anger'', 1 / 10)]"
    and label_dropped: "snd (TryParseEmotionMessage example_engine sample_label_only []) = []"
    by (simp_all add: TryParseEmotionMessage_def TMap_Add_def example_engine_defs)
  have valid: "True \<and> Some Values = Some Values \<and> distinct (map fst Values)"
    if "distinct (map fst Values)" for Values :: "(string \<times> real FJsonValue option) list"
    using that by simp
  have "HandleMessage example_engine sample_message UEmotionReceiver =
      emit (EmotionUpdate [(''joy'', 8 / 10), (''anger'', 1 / 10)]) UEmotionReceiver"
    using HandleMessage_decodes [OF sample, of UEmotionReceiver, THEN conjunct2, THEN spec,
        THEN mp, OF valid, OF keys, THEN conjunct2, THEN conjunct2]
    by (simp add: mapping)
  moreover have "HandleMessage example_engine sample_label_only UEmotionReceiver =
      emit (UE_LOG_Warning
        (''NovaLink EmotionReceiver received invalid JSON: '' @ sample_label_only)) UEmotionReceiver"
    using HandleMessage_decodes [OF label_only, of UEmotionReceiver, THEN conjunct2, THEN spec,
        THEN mp, OF valid, THEN conjunct2, THEN conjunct2]
    by (simp add: label_dropped)
  moreover have "HandleMessage example_engine ''not json'' UEmotionReceiver =
      emit (UE_LOG_Warning ''NovaLink EmotionReceiver received invalid JSON: not json'')
        UEmotionReceiver"
    using HandleMessage_decodes [OF garbage, of UEmotionReceiver]
    by simp
  ultimately show ?thesis
    using sample label_only garbage keys by blast
qed

subsection \<open>The binary frame forwarder\<close>

lemma static_cast_int32_eq:
  "static_cast_int32 Size = signed_take_bit 31 (uint Size)"
  unfolding static_cast_int32_def
  by (subst signed_ucast_eq) simp

lemma static_cast_int32_small:
  assumes "unat Size < 2 ^ 31"
  shows "static_cast_int32 Size = int (unat Size)"
proof -
  have "int (unat Size) < 2 ^ 31"
    using assms by (simp only: of_nat_less_numeral_power_cancel_iff)
  then have "uint Size < 2 ^ 31"
    by (simp only: uint_nat)
  moreover have "- (2 ^ 31) \<le> uint Size"
    by (rule order_trans [of _ 0]) simp_all
  ultimately have "signed_take_bit 31 (uint Size) = uint Size"
    by (rule signed_take_bit_int_eq_self [rotated])
  then show ?thesis
    by (simp only: static_cast_int32_eq uint_nat)
qed

lemma static_cast_int32_upper: "static_cast_int32 Size < 2 ^ 31"
  unfolding static_cast_int32_eq
  by (rule signed_take_bit_int_less_exp)

lemma static_cast_int32_wraps:
  assumes "0 \<le> static_cast_int32 Size"
  shows "nat (static_cast_int32 Size) = unat Size mod 2 ^ 32"
proof -
  have "\<not> bit (uint Size) 31"
    using assms unfolding static_cast_int32_eq
    by (simp only: signed_take_bit_nonnegative_iff not_False_eq_True)
  then have "signed_take_bit 31 (uint Size) = take_bit (Suc 31) (uint Size)"
    by (simp only: signed_take_bit_eq_take_bit_minus of_bool_def if_False mult_zero_right diff_zero)
  then have "static_cast_int32 Size = int (unat Size) mod 2 ^ Suc 31"
    by (simp only: static_cast_int32_eq take_bit_eq_mod uint_nat)
  then have "nat (static_cast_int32 Size) = nat (int (unat Size) mod int (2 ^ Suc 31))"
    by (simp only: of_nat_power of_nat_numeral)
  also have "\<dots> = unat Size mod 2 ^ Suc 31"
    by (simp only: flip: zmod_int)
  finally show ?thesis
    by simp
qed

lemma static_cast_int32_le:
  assumes "0 \<le> static_cast_int32 Size"
  shows "nat (static_cast_int32 Size) \<le> unat Size"
  by (simp add: static_cast_int32_wraps [OF assms])

lemma HandleBinaryMessage_count:
  "Size \<noteq> 0 \<Longrightarrow> 0 \<le> static_cast_int32 Size \<Longrightarrow>
     HandleBinaryMessage (Some ByteData) Size BytesRemaining w =
       Inr (emit (AudioChunkReceived (take (nat (static_cast_int32 Size)) ByteData)) w)"
  by (simp add: HandleBinaryMessage_def TArray_Append_def)

lemma HandleBinaryMessage_negative:
  "Size \<noteq> 0 \<Longrightarrow> static_cast_int32 Size < 0 \<Longrightarrow>
     HandleBinaryMessage (Some ByteData) Size BytesRemaining w = Inl Append_NegativeCount"
  by (simp add: HandleBinaryMessage_def TArray_Append_def)

text \<open>
  Claim C2, amended. A raw-message callback with a null pointer or with size zero
  does nothing. With a pointer that is not null and a size from 1 to 2^31 - 1 (the
  bytes at the pointer being readable up to the size) it notifies the chunk-received
  listeners once, with a buffer of exactly \<open>Size\<close> bytes, the first \<open>Size\<close>
  bytes at the pointer, whatever \<open>BytesRemaining\<close> is.
\<close>

theorem HandleBinaryMessage_forwards_chunk:
  "HandleBinaryMessage None Size BytesRemaining w = Inr w
   \<and> HandleBinaryMessage Data 0 BytesRemaining w = Inr w
   \<and> (Size \<noteq> 0 \<and> unat Size \<le> 2 ^ 31 - 1 \<and> unat Size \<le> length ByteData \<longrightarrow>
        HandleBinaryMessage (Some ByteData) Size BytesRemaining w =
          Inr (emit (AudioChunkReceived (take (unat Size) ByteData)) w)
        \<and> length (take (unat Size) ByteData) = unat Size)"
proof -
  have "HandleBinaryMessage Data 0 BytesRemaining w = Inr w"
    by (cases Data) (simp_all add: HandleBinaryMessage_def)
  moreover have "HandleBinaryMessage (Some ByteData) Size BytesRemaining w =
      Inr (emit (AudioChunkReceived (take (unat Size) ByteData)) w)"
    if "Size \<noteq> 0" and "unat Size \<le> 2 ^ 31 - 1"
  proof -
    from that(2) have small: "unat Size < 2 ^ 31" by simp
    show ?thesis
      using HandleBinaryMessage_count [of Size ByteData BytesRemaining w] that(1)
      by (simp add: static_cast_int32_small [OF small])
  qed
  ultimately show ?thesis
    by (simp add: HandleBinaryMessage_def)
qed

theorem HandleBinaryMessage_forwards_chunk_witness:
  "(3 :: SIZE_T) \<noteq> 0 \<and> unat (3 :: SIZE_T) \<le> 2 ^ 31 - 1 \<and> unat (3 :: SIZE_T) \<le> length [10, 20, 30 :: uint8]
   \<and> HandleBinaryMessage (Some [10, 20, 30]) 3 5 (UAudioReceiver :: real world) =
       Inr (emit (AudioChunkReceived [10, 20, 30]) UAudioReceiver)"
proof -
  have h: "(3 :: SIZE_T) \<noteq> 0 \<and> unat (3 :: SIZE_T) \<le> 2 ^ 31 - 1
      \<and> unat (3 :: SIZE_T) \<le> length [10, 20, 30 :: uint8]"
    by simp
  from HandleBinaryMessage_forwards_chunk
    [of 3 5 "UAudioReceiver :: real world" "Some [10, 20, 30]" "[10, 20, 30]"] h
  show ?thesis by simp
qed

text \<open>
  Claim C2 as stated fails above 2^31 - 1: of a message of 2^32 + 1 bytes one byte is
  forwarded.
\<close>

theorem HandleBinaryMessage_oversize_counterexample:
  "HandleBinaryMessage (Some (replicate 4294967297 7)) 4294967297 0 (UAudioReceiver :: real world) =
     Inr (emit (AudioChunkReceived [7]) UAudioReceiver)
   \<and> length (replicate 4294967297 (7 :: uint8)) = unat (4294967297 :: SIZE_T)
   \<and> length [7 :: uint8] \<noteq> unat (4294967297 :: SIZE_T)"
  by (simp add: HandleBinaryMessage_def TArray_Append_def static_cast_int32_def)

text \<open>
  Claim C10, amended. The size is converted to a signed 32-bit number before the copy.
  For a pointer that is not null and a size that is not zero: when the converted size
  is not negative, one buffer is emitted, of the first (converted size) bytes, the
  converted size being the size modulo 2^32; its length is the converted size, and it
  is the input (the first \<open>Size\<close> bytes) exactly when the size is at most
  2^31 - 1. When the converted size is negative there is no buffer of that length: the
  append is asked for a negative count.
\<close>

theorem HandleBinaryMessage_int32_count:
  "Size \<noteq> 0 \<Longrightarrow>
     (0 \<le> static_cast_int32 Size \<longrightarrow>
        HandleBinaryMessage (Some ByteData) Size BytesRemaining w =
          Inr (emit (AudioChunkReceived (take (nat (static_cast_int32 Size)) ByteData)) w)
        \<and> nat (static_cast_int32 Size) = unat Size mod 2 ^ 32
        \<and> (unat Size \<le> length ByteData \<longrightarrow>
             int (length (take (nat (static_cast_int32 Size)) ByteData)) = static_cast_int32 Size
             \<and> (take (nat (static_cast_int32 Size)) ByteData = take (unat Size) ByteData
                  \<longleftrightarrow> unat Size \<le> 2 ^ 31 - 1)))
     \<and> (static_cast_int32 Size < 0 \<longrightarrow>
          HandleBinaryMessage (Some ByteData) Size BytesRemaining w = Inl Append_NegativeCount)"
proof (intro conjI impI)
  assume nz: "Size \<noteq> 0" and neg: "static_cast_int32 Size < 0"
  then show "HandleBinaryMessage (Some ByteData) Size BytesRemaining w = Inl Append_NegativeCount"
    by (rule HandleBinaryMessage_negative)
next
  assume nz: "Size \<noteq> 0" and pos: "0 \<le> static_cast_int32 Size"
  then show "HandleBinaryMessage (Some ByteData) Size BytesRemaining w =
      Inr (emit (AudioChunkReceived (take (nat (static_cast_int32 Size)) ByteData)) w)"
    by (rule HandleBinaryMessage_count)
  show "nat (static_cast_int32 Size) = unat Size mod 2 ^ 32"
    by (rule static_cast_int32_wraps [OF pos])
next
  assume pos: "0 \<le> static_cast_int32 Size" and readable: "unat Size \<le> length ByteData"
  have le: "nat (static_cast_int32 Size) \<le> unat Size"
    by (rule static_cast_int32_le [OF pos])
  show "int (length (take (nat (static_cast_int32 Size)) ByteData)) = static_cast_int32 Size"
    using le readable pos by simp
  show "take (nat (static_cast_int32 Size)) ByteData = take (unat Size) ByteData
      \<longleftrightarrow> unat Size \<le> 2 ^ 31 - 1"
  proof
    assume "take (nat (static_cast_int32 Size)) ByteData = take (unat Size) ByteData"
    then have "length (take (nat (static_cast_int32 Size)) ByteData) =
        length (take (unat Size) ByteData)"
      by simp
    then have "nat (static_cast_int32 Size) = unat Size"
      using le readable by simp
    then have "int (unat Size) = int (nat (static_cast_int32 Size))"
      by (simp only:)
    also have "\<dots> = static_cast_int32 Size"
      using pos by (simp only: nat_0_le)
    finally have "int (unat Size) < 2 ^ 31"
      using static_cast_int32_upper [of Size] by (simp only:)
    then have "unat Size < 2 ^ 31"
      by (simp only: of_nat_less_numeral_power_cancel_iff)
    then show "unat Size \<le> 2 ^ 31 - 1"
      by simp
  next
    assume "unat Size \<le> 2 ^ 31 - 1"
    then have "unat Size < 2 ^ 31" by simp
    then show "take (nat (static_cast_int32 Size)) ByteData = take (unat Size) ByteData"
      by (simp add: static_cast_int32_small)
  qed
qed

theorem HandleBinaryMessage_int32_count_witness:
  "(4294967297 :: SIZE_T) \<noteq> 0 \<and> 0 \<le> static_cast_int32 4294967297
   \<and> unat (4294967297 :: SIZE_T) \<le> length (replicate 4294967297 (7 :: uint8))
   \<and> HandleBinaryMessage (Some (replicate 4294967297 7)) 4294967297 0 (UAudioReceiver :: real world) =
       Inr (emit (AudioChunkReceived (take (nat (static_cast_int32 4294967297)) (replicate 4294967297 7)))
         UAudioReceiver)
   \<and> take (nat (static_cast_int32 4294967297)) (replicate 4294967297 (7 :: uint8)) = [7]
   \<and> (2147483648 :: SIZE_T) \<noteq> 0 \<and> static_cast_int32 2147483648 < 0
   \<and> HandleBinaryMessage (Some (replicate 2147483648 7)) 2147483648 0 (UAudioReceiver :: real world) =
       Inl Append_NegativeCount"
proof -
  have a: "(4294967297 :: SIZE_T) \<noteq> 0 \<and> 0 \<le> static_cast_int32 4294967297
      \<and> unat (4294967297 :: SIZE_T) \<le> length (replicate 4294967297 (7 :: uint8))
      \<and> take (nat (static_cast_int32 4294967297)) (replicate 4294967297 (7 :: uint8)) = [7]"
    by (simp add: static_cast_int32_def)
  have b: "(2147483648 :: SIZE_T) \<noteq> 0 \<and> static_cast_int32 2147483648 < 0"
    by (simp add: static_cast_int32_def)
  from a b
    HandleBinaryMessage_int32_count
      [of 4294967297 "replicate 4294967297 7" 0 "UAudioReceiver :: real world"]
    HandleBinaryMessage_int32_count
      [of 2147483648 "replicate 2147483648 7" 0 "UAudioReceiver :: real world"]
  show ?thesis by blast
qed

text \<open>
  Claim C10 as stated fails where the converted size is negative: at a size of 2^31
  it is -2^31, which is the length of no buffer, and no buffer is emitted.
\<close>

theorem HandleBinaryMessage_negative_count_counterexample:
  "static_cast_int32 2147483648 = - 2147483648
   \<and> HandleBinaryMessage (Some (replicate 2147483648 7)) 2147483648 0 (UAudioReceiver :: real world) =
       Inl Append_NegativeCount"
  by (simp add: HandleBinaryMessage_def TArray_Append_def static_cast_int32_def)

subsection \<open>The session\<close>


lemma message_delegate_other:
  "message_delegate c \<noteq> OnConnected"
  "message_delegate c \<noteq> OnConnectionError"
  "message_delegate c \<noteq> OnClosed"
  by (cases c; simp)+

lemma StartConnection_unfold:
  assumes "TargetUrl = (if OptionalOverrideUrl = [] then WebSocketUrl w else OptionalOverrideUrl)"
    and "TargetUrl \<noteq> []"
  shows "StartConnection OptionalOverrideUrl w =
    (StopConnection w)
      \<lparr>WebSocket := Some (allocated w),
       sockets := (sockets (StopConnection w))
         (allocated w :=
            \<lparr>Url = TargetUrl,
             bound = (\<lambda>d. [])
               (OnConnected := [Fn_HandleConnected],
                OnConnectionError := [Fn_HandleConnectionError],
                OnClosed := [Fn_HandleClosed],
                message_delegate (receiver w) := [message_method (receiver w)]),
             transport_connected = False\<rparr>),
       allocated := Suc (allocated w),
       WebSocketsModule := True,
       trace := trace (StopConnection w) @
         [WS_CreateWebSocket (allocated w) TargetUrl,
          WS_AddUObject (allocated w) OnConnected Fn_HandleConnected,
          WS_AddUObject (allocated w) OnConnectionError Fn_HandleConnectionError,
          WS_AddUObject (allocated w) OnClosed Fn_HandleClosed,
          WS_AddUObject (allocated w) (message_delegate (receiver w)) (message_method (receiver w)),
          WS_Connect (allocated w)]\<rparr>"
proof -
  define w0 where "w0 = StopConnection w"
  have same: "allocated w0 = allocated w"
    by (simp add: w0_def StopConnection_fields)
  have "StartConnection OptionalOverrideUrl w =
      (let w1 = (if \<not> WebSocketsModule w0 then w0\<lparr>WebSocketsModule := True\<rparr> else w0);
           (i, w2) = CreateWebSocket TargetUrl w1;
           w3 = w2\<lparr>WebSocket := Some i\<rparr>;
           w4 = AddUObject i OnConnected Fn_HandleConnected w3;
           w5 = AddUObject i OnConnectionError Fn_HandleConnectionError w4;
           w6 = AddUObject i OnClosed Fn_HandleClosed w5;
           w7 = AddUObject i (message_delegate (receiver w)) (message_method (receiver w)) w6
       in Connect i w7)"
    using assms by (simp add: StartConnection_def Let_def w0_def)
  also have "\<dots> = w0
      \<lparr>WebSocket := Some (allocated w0),
       sockets := (sockets w0)
         (allocated w0 :=
            \<lparr>Url = TargetUrl,
             bound = (\<lambda>d. [])
               (OnConnected := [Fn_HandleConnected],
                OnConnectionError := [Fn_HandleConnectionError],
                OnClosed := [Fn_HandleClosed],
                message_delegate (receiver w) := [message_method (receiver w)]),
             transport_connected = False\<rparr>),
       allocated := Suc (allocated w0),
       WebSocketsModule := True,
       trace := trace w0 @
         [WS_CreateWebSocket (allocated w0) TargetUrl,
          WS_AddUObject (allocated w0) OnConnected Fn_HandleConnected,
          WS_AddUObject (allocated w0) OnConnectionError Fn_HandleConnectionError,
          WS_AddUObject (allocated w0) OnClosed Fn_HandleClosed,
          WS_AddUObject (allocated w0) (message_delegate (receiver w)) (message_method (receiver w)),
          WS_Connect (allocated w0)]\<rparr>"
    by (cases w0) (simp add: transport_ops closed_socket_def Let_def message_delegate_other)
  finally show ?thesis
    by (simp only: same) (simp only: w0_def)
qed


text \<open>
  In every state a session reaches, its handle is the address of an allocated
  transport: this holds for a new receiver and is kept by every call of the host and
  every event of a transport.
\<close>

lemma handle_allocated_new: "handle_allocated (new_receiver c u)"
  by (simp add: handle_allocated_def new_receiver_def)

lemma handle_allocated_emit: "handle_allocated (emit e w) = handle_allocated w"
  by (cases "WebSocket w") (simp_all add: handle_allocated_def emit_def)

lemma handle_allocated_released: "WebSocket w = None \<Longrightarrow> handle_allocated w"
  by (simp add: handle_allocated_def)

lemma StartConnection_handle_allocated:
  assumes "handle_allocated w"
  shows "handle_allocated (StartConnection u w)"
proof (cases "(if u = [] then WebSocketUrl w else u) = []")
  case True
  then have "StartConnection u w =
      emit (UE_LOG_Warning
        (''NovaLink '' @ class_name (receiver w) @ '' requires a websocket URL.'')) w"
    by (simp add: StartConnection_def)
  with assms show ?thesis
    by (simp only: handle_allocated_emit)
next
  case False
  then show ?thesis
    by (simp add: StartConnection_unfold [OF refl False] handle_allocated_def)
qed

lemma invoke_handle_allocated:
  assumes "handle_allocated w" and "invoke E m ev w = Inr w'"
  shows "handle_allocated w'"
proof -
  have connected: "handle_allocated (HandleConnected w)"
    using assms(1)
    by (cases "WebSocket w") (simp_all add: HandleConnected_def handle_allocated_def emit_def)
  have error: "handle_allocated (HandleConnectionError e w)" for e
    by (rule handle_allocated_released)
      (simp add: HandleConnectionError_def ResetWebSocket_fields Let_def)
  have closed: "handle_allocated (HandleClosed c r b w)" for c r b
    by (rule handle_allocated_released)
      (simp add: HandleClosed_def ResetWebSocket_fields Let_def)
  have message: "handle_allocated (HandleMessage E t w)" for t
    using assms(1)
    by (cases "TryParseEmotionMessage E t []")
      (simp add: HandleMessage_def handle_allocated_emit)
  have chunk: "handle_allocated w'" if "HandleBinaryMessage d s r w = Inr w'" for d s r
    using that assms(1)
    by (auto simp: HandleBinaryMessage_def handle_allocated_emit
        split: option.splits if_splits sum.splits)
  from assms show ?thesis
    by (cases m; cases ev) (auto simp: connected error closed message dest: chunk)
qed

lemma Broadcast_handle_allocated:
  "handle_allocated w \<Longrightarrow> Broadcast E ms ev w = Inr w' \<Longrightarrow> handle_allocated w'"
proof (induction ms arbitrary: w)
  case Nil
  then show ?case by simp
next
  case (Cons m ms)
  then show ?case
    by (auto split: sum.splits dest: invoke_handle_allocated)
qed

lemma perform_handle_allocated:
  assumes "handle_allocated w" and "perform E a w = Inr w'"
  shows "handle_allocated w'"
proof (cases a)
  case (Host_SetUrl u)
  with assms show ?thesis
    by (cases "WebSocket w") (auto simp: handle_allocated_def)
next
  case (Host_StartConnection u)
  with assms show ?thesis
    by (auto simp: StartConnection_handle_allocated)
next
  case Host_StopConnection
  with assms show ?thesis
    by (auto simp: StopConnection_fields intro: handle_allocated_released)
next
  case Host_Destroy
  with assms show ?thesis
    by (auto simp: implicit_destructor_def intro: handle_allocated_released)
next
  case (Transport i ev)
  have "handle_allocated (w\<lparr>sockets := (sockets w)
      (i := (sockets w i)\<lparr>transport_connected :=
         connected_after ev (transport_connected (sockets w i))\<rparr>)\<rparr>)"
    using assms(1) by (cases "WebSocket w") (simp_all add: handle_allocated_def)
  then show ?thesis
    using assms(2) Transport
    by (auto simp: transport_raises_def dest: Broadcast_handle_allocated)
qed

lemma run_handle_allocated:
  "handle_allocated w \<Longrightarrow> run E as w = Inr w' \<Longrightarrow> handle_allocated w'"
proof (induction as arbitrary: w)
  case Nil
  then show ?case by simp
next
  case (Cons a as)
  then show ?case
    by (auto split: sum.splits dest: perform_handle_allocated)
qed




text \<open>
  Claim C4. \<open>StopConnection\<close> is idempotent: a second call in a row leaves the
  state the first call left; after any call the handle is released and
  \<open>IsConnected()\<close> is false; on a session that is already stopped (no handle, not
  connected) the call changes nothing; and a receiver that has just been constructed,
  of either class, is not connected.
\<close>

theorem StopConnection_idempotent:
  "StopConnection (StopConnection w) = StopConnection w
   \<and> WebSocket (StopConnection w) = None
   \<and> \<not> IsConnected (StopConnection w)
   \<and> (WebSocket w = None \<and> \<not> bIsConnected w \<longrightarrow> StopConnection w = w)
   \<and> \<not> IsConnected (UAudioReceiver :: 'f world)
   \<and> \<not> IsConnected (UEmotionReceiver :: 'f world)"
  by (simp add: StopConnection_released StopConnection_fields IsConnected_def
      UAudioReceiver_def UEmotionReceiver_def new_receiver_def)

theorem StopConnection_idempotent_witness:
  "WebSocket (UAudioReceiver :: real world) = None
   \<and> \<not> bIsConnected (UAudioReceiver :: real world)
   \<and> StopConnection (UAudioReceiver :: real world) = UAudioReceiver
   \<and> bIsConnected connected_audio
   \<and> StopConnection (StopConnection connected_audio) = StopConnection connected_audio
   \<and> WebSocket (StopConnection connected_audio) = None
   \<and> \<not> IsConnected (StopConnection connected_audio)"
proof -
  have fresh: "WebSocket (UAudioReceiver :: real world) = None
      \<and> \<not> bIsConnected (UAudioReceiver :: real world)"
    by (simp add: UAudioReceiver_def new_receiver_def)
  show ?thesis
    using fresh connected_audio_fields(2)
      StopConnection_idempotent [of "UAudioReceiver :: real world"]
      StopConnection_idempotent [of connected_audio]
    by blast
qed

text \<open>
  Claim C5. When the configured address and the override are both empty,
  \<open>StartConnection\<close> logs one warning and returns: the state is the state before
  with the warning added to the effects; no call on a transport is made (so
  \<open>StopConnection\<close> is not run and no transport is opened), the handle, the
  connected flag and the transports are as before.
\<close>

theorem StartConnection_without_address:
  "WebSocketUrl w = [] \<Longrightarrow>
     StartConnection [] w =
       w\<lparr>trace := trace w @
            [UE_LOG_Warning (''NovaLink '' @ class_name (receiver w) @ '' requires a websocket URL.'')]\<rparr>
     \<and> transport_calls (trace (StartConnection [] w)) = transport_calls (trace w)
     \<and> connection_notifications (trace (StartConnection [] w)) = connection_notifications (trace w)
     \<and> WebSocket (StartConnection [] w) = WebSocket w
     \<and> bIsConnected (StartConnection [] w) = bIsConnected w
     \<and> sockets (StartConnection [] w) = sockets w"
  by (simp add: StartConnection_def emit_def transport_calls_append connection_notifications_append)

theorem StartConnection_without_address_witness:
  "WebSocketUrl (connected_audio\<lparr>WebSocketUrl := []\<rparr>) = []
   \<and> bIsConnected (StartConnection [] (connected_audio\<lparr>WebSocketUrl := []\<rparr>))
   \<and> WebSocket (StartConnection [] (connected_audio\<lparr>WebSocketUrl := []\<rparr>)) = Some 0
   \<and> transport_calls (trace (StartConnection [] (connected_audio\<lparr>WebSocketUrl := []\<rparr>))) =
       transport_calls (trace connected_audio)"
proof -
  have cleared: "WebSocketUrl (connected_audio\<lparr>WebSocketUrl := []\<rparr>) = []"
    by simp
  from StartConnection_without_address [OF cleared, THEN conjunct2] cleared
  show ?thesis
    by (simp add: connected_audio_fields)
qed

text \<open>
  Claim C6. The closed callback does not read its status code, reason or clean flag,
  and the error callback is the closed callback after one error line in the log: both
  leave the session not connected with the handle released, both notify the
  connection-state listeners once, with false, and neither touches a transport.
\<close>

theorem HandleClosed_like_HandleConnectionError:
  "HandleClosed StatusCode Reason bWasClean w = HandleClosed StatusCode' Reason' bWasClean' w
   \<and> HandleConnectionError Error w =
       HandleClosed StatusCode Reason bWasClean
         (emit (UE_LOG_Error
            (''NovaLink '' @ class_name (receiver w) @ '' connection error: '' @ Error)) w)
   \<and> \<not> bIsConnected (HandleClosed StatusCode Reason bWasClean w)
   \<and> \<not> bIsConnected (HandleConnectionError Error w)
   \<and> WebSocket (HandleClosed StatusCode Reason bWasClean w) = None
   \<and> WebSocket (HandleConnectionError Error w) = None
   \<and> connection_notifications (trace (HandleClosed StatusCode Reason bWasClean w)) =
       connection_notifications (trace w) @ [False]
   \<and> connection_notifications (trace (HandleConnectionError Error w)) =
       connection_notifications (trace w) @ [False]
   \<and> sockets (HandleClosed StatusCode Reason bWasClean w) = sockets w
   \<and> sockets (HandleConnectionError Error w) = sockets w"
  by (simp add: HandleClosed_def HandleConnectionError_def ResetWebSocket_fields emit_def Let_def
      connection_notifications_append)


lemma callback_notifications:
  "connection_notifications (trace (callback ev w)) =
     connection_notifications (trace w) @ map (\<lambda>ev. ev = Connected) (filter is_connection_event [ev])"
  by (cases ev)
    (simp_all add: HandleConnected_def HandleConnectionError_def HandleClosed_def
      ResetWebSocket_fields emit_def Let_def connection_notifications_append)

lemma fold_callback_notifications:
  "connection_notifications (trace (fold callback evs w)) =
     connection_notifications (trace w) @
       map (\<lambda>ev. ev = Connected) (filter is_connection_event evs)"
proof (induction evs arbitrary: w)
  case Nil
  show ?case by simp
next
  case (Cons ev evs)
  have "connection_notifications (trace (fold callback (ev # evs) w)) =
      connection_notifications (trace (callback ev w)) @
        map (\<lambda>ev. ev = Connected) (filter is_connection_event evs)"
    using Cons.IH [of "callback ev w"] by simp
  then show ?case
    by (simp only: callback_notifications) simp
qed

text \<open>
  Claim C7, amended. Every connected callback notifies true and every error or closed
  callback notifies false, one notification for each callback, in the order of the
  callbacks: the notifications of a session alternate exactly when its callbacks
  alternate between connected and error-or-closed. Nothing compares a notification with
  the one before it.
\<close>

theorem notifications_follow_callbacks:
  "connection_notifications (trace (fold callback evs w)) =
     connection_notifications (trace w) @
       map (\<lambda>ev. ev = Connected) (filter is_connection_event evs)
   \<and> alternates (connection_notifications (trace (fold callback evs (new_receiver c u)))) =
       alternates (map (\<lambda>ev. ev = Connected) (filter is_connection_event evs))"
  by (simp add: fold_callback_notifications new_receiver_def)

text \<open>
  Claim C7 as stated fails: a receiver whose first two connection attempts are both
  refused notifies false twice in a row.
\<close>

theorem refused_twice_counterexample:
  "run example_engine
     [Host_StartConnection [], Transport 0 (ConnectionError ''refused''),
      Host_StartConnection [], Transport 1 (ConnectionError ''refused'')] UAudioReceiver
     = Inr refused_twice
   \<and> connection_notifications (trace refused_twice) = [False, False]
   \<and> \<not> alternates (connection_notifications (trace refused_twice))"
  by (simp add: refused_twice_def session_defs transport_ops)

text \<open>
  Claim C8, amended. Destroying a receiver only releases its handle: it makes no call
  on a transport (no callback is unregistered, no close is requested) and adds no
  effect. The teardown of \<open>StopConnection\<close> happens when the host calls
  \<open>StopConnection\<close>; destroying a receiver that was stopped changes nothing more.
\<close>

theorem destruction_only_releases_handle:
  "trace (implicit_destructor w) = trace w
   \<and> sockets (implicit_destructor w) = sockets w
   \<and> WebSocket (implicit_destructor w) = None
   \<and> implicit_destructor (StopConnection w) = StopConnection w"
  using StopConnection_fields(1) [of w]
  by (cases "StopConnection w") (simp add: implicit_destructor_def)

text \<open>
  Claim C8 as stated fails: on a connected audio receiver \<open>StopConnection\<close>
  unregisters the four callbacks and requests a close, destruction does neither.
\<close>

theorem destruction_counterexample:
  "bIsConnected connected_audio
   \<and> transport_connected (sockets connected_audio 0)
   \<and> transport_calls (trace (StopConnection connected_audio)) =
       transport_calls (trace connected_audio) @
         [WS_RemoveAll 0 OnConnected, WS_RemoveAll 0 OnConnectionError, WS_RemoveAll 0 OnClosed,
          WS_RemoveAll 0 OnRawMessage, WS_Close 0 1000 ''AudioReceiver Stop'']
   \<and> transport_calls (trace (implicit_destructor connected_audio)) =
       transport_calls (trace connected_audio)
   \<and> bound (sockets (implicit_destructor connected_audio) 0) OnClosed = [Fn_HandleClosed]
   \<and> bound (sockets (StopConnection connected_audio) 0) OnClosed = []"
  by (simp add: connected_audio_def session_defs transport_ops)

lemma StartConnection_notifications:
  "connection_notifications (trace (StartConnection u w)) = connection_notifications (trace w)"
  by (simp add: StartConnection_def transport_ops Let_def connection_notifications_append
      StopConnection_notifications)

lemma HandleMessage_trace:
  "trace (HandleMessage E m w) = trace w @ [EmotionUpdate (snd (TryParseEmotionMessage E m []))]
   \<or> trace (HandleMessage E m w) =
       trace w @ [UE_LOG_Warning (''NovaLink EmotionReceiver received invalid JSON: '' @ m)]"
  by (cases "TryParseEmotionMessage E m []") (auto simp: HandleMessage_def emit_def)

lemma HandleMessage_notifications:
  "connection_notifications (trace (HandleMessage E m w)) = connection_notifications (trace w)"
  using HandleMessage_trace [of E m w] by (auto simp: connection_notifications_append)

lemma HandleBinaryMessage_notifications:
  "HandleBinaryMessage Data Size Rem w = Inr w' \<Longrightarrow>
     connection_notifications (trace w') = connection_notifications (trace w)"
  by (auto simp: HandleBinaryMessage_def emit_def connection_notifications_append
      split: option.splits if_splits sum.splits)

text \<open>
  Claim C9. \<open>StopConnection\<close> adds no connection-state notification, whatever the
  state, also when it takes the connected flag from true to false. Of the operations of
  a receiver only the error and the closed callbacks notify false: the connected
  callback notifies true, and \<open>StartConnection\<close> and the two message handlers
  notify nothing about the connection.
\<close>

theorem StopConnection_notifies_nobody:
  "connection_notifications (trace (StopConnection w)) = connection_notifications (trace w)
   \<and> \<not> bIsConnected (StopConnection w)
   \<and> connection_notifications (trace (StartConnection u w)) = connection_notifications (trace w)
   \<and> connection_notifications (trace (HandleConnected w)) = connection_notifications (trace w) @ [True]
   \<and> connection_notifications (trace (HandleConnectionError e w)) = connection_notifications (trace w) @ [False]
   \<and> connection_notifications (trace (HandleClosed c r b w)) = connection_notifications (trace w) @ [False]
   \<and> connection_notifications (trace (HandleMessage E m w)) = connection_notifications (trace w)
   \<and> (\<forall>w'. HandleBinaryMessage Data Size Rem w = Inr w' \<longrightarrow>
         connection_notifications (trace w') = connection_notifications (trace w))"
  by (simp add: StopConnection_notifications StopConnection_fields StartConnection_notifications
      HandleMessage_notifications HandleBinaryMessage_notifications
      HandleConnected_def HandleConnectionError_def HandleClosed_def ResetWebSocket_fields
      emit_def Let_def connection_notifications_append)

theorem StopConnection_notifies_nobody_witness:
  "bIsConnected connected_audio
   \<and> \<not> bIsConnected (StopConnection connected_audio)
   \<and> connection_notifications (trace connected_audio) = [True]
   \<and> connection_notifications (trace (StopConnection connected_audio)) = [True]
   \<and> HandleBinaryMessage (Some [1, 2]) 2 0 connected_audio =
       Inr (emit (AudioChunkReceived [1, 2]) connected_audio)
   \<and> connection_notifications (trace (emit (AudioChunkReceived [1, 2]) connected_audio)) = [True]"
proof -
  have chunk: "HandleBinaryMessage (Some [1, 2]) 2 0 connected_audio =
      Inr (emit (AudioChunkReceived [1, 2]) connected_audio)"
    by (simp add: HandleBinaryMessage_def TArray_Append_def static_cast_int32_def)
  from StopConnection_notifies_nobody
    [of connected_audio "[]" "[]" 0 "[]" True example_engine "[]" "Some [1, 2]" 2 0] chunk
  show ?thesis
    by (simp add: connected_audio_fields)
qed

end
